theory Spec2Isabelle
  imports Main
begin

section \<open>Effects of a command run\<close>

text \<open>
  The commands of harbor-cli are oclif \<^verbatim>\<open>Command\<close> classes whose \<^verbatim>\<open>run()\<close> methods talk to
  the operator (\<^verbatim>\<open>this.log\<close>, \<^verbatim>\<open>inquirer.prompt\<close>), to the shell (\<^verbatim>\<open>execSync\<close>), to the
  Docker daemon (dockerode) and to the file system.  A run is modelled by the list of
  effects it performs, in order, together with the way it ends: \<open>Inr\<close> for a normal
  return, \<open>Inl e\<close> when a callee threw \<open>e\<close> and nothing in \<^verbatim>\<open>run()\<close> caught it (the
  promise returned by \<^verbatim>\<open>run()\<close> rejects with \<open>e\<close>).
\<close>

datatype error =
    CommandFailed string string  \<comment> \<open>\<^verbatim>\<open>execSync\<close> threw: command line, error text\<close>
  | DockerApiError string        \<comment> \<open>a dockerode call rejected\<close>
  | FsError string               \<comment> \<open>\<^verbatim>\<open>fs.writeFile\<close> rejected\<close>

datatype db_type = Db_postgres | Db_mysql | Db_none
  \<comment> \<open>\<^verbatim>\<open>options: ['postgres', 'mysql', 'none']\<close> of the \<^verbatim>\<open>dbType\<close> flag\<close>

text \<open>
  Every \<^verbatim>\<open>this.log(...)\<close> call site is one constructor, carrying the values interpolated
  into its text.
\<close>

datatype message =
    MigrateStarting string                 \<comment> \<open>"Starting migration for image: ..."\<close>
  | MissingDockerFiles                     \<comment> \<open>"Missing Docker files. Run `harborcli generate` first."\<close>
  | BuildingImage                          \<comment> \<open>"Building multi-platform image with Buildx..."\<close>
  | ImageBuilt                             \<comment> \<open>"Image built and pushed successfully!"\<close>
  | SyncingData db_type                    \<comment> \<open>"Syncing data for ... database."\<close>
  | DataDumped                             \<comment> \<open>"Data dumped to db_dump.sql."\<close>
  | SkippingDataSync                       \<comment> \<open>"Skipping data sync. Use --dbType to enable."\<close>
  | CheckingDaemon                         \<comment> \<open>"Checking local Docker daemon..."\<close>
  | DeployingToVps string string           \<comment> \<open>"Deploying to VPS at ... manually SSH and run `docker pull ...`"\<close>
  | DeployingLocally                       \<comment> \<open>"Deploying staging locally."\<close>
  | StagingRunning                         \<comment> \<open>"Staging deployment running!"\<close>
  | MigrationComplete                      \<comment> \<open>"Migration steps complete!"\<close>
  | TroubleshootStarting                   \<comment> \<open>"Starting troubleshooting session."\<close>
  | NoContainersFound                      \<comment> \<open>"No containers found. Start your app with `docker-compose up`."\<close>
  | NoContainerSelected                    \<comment> \<open>"No container selected. Exiting."\<close>
  | ContainerStats string string "(string \<times> string list) list option" string
                                           \<comment> \<open>"Container Stats:" name, status, ports, image\<close>
  | NotRunning string string               \<comment> \<open>"Issue Detected: Container is not running (...)", with the
                                               suggested \<^verbatim>\<open>docker logs\<close> / \<^verbatim>\<open>docker restart\<close> on the short id\<close>
  | RecentLogs string                      \<comment> \<open>"Recent Logs: ..."\<close>
  | RunningChecks                          \<comment> \<open>"Running common checks..."\<close>
  | PortsConfigured                        \<comment> \<open>"Ports seem configured."\<close>
  | NoPortsExposed                         \<comment> \<open>"Issue: No ports exposed. Suggested Fix: Add EXPOSE ..."\<close>
  | TroubleshootComplete                   \<comment> \<open>"Troubleshooting complete!"\<close>
  | GenerateStarting string                \<comment> \<open>"Starting generation in directory: ..."\<close>
  | AutoDetected string                    \<comment> \<open>"Auto-detected stack: ..."\<close>
  | ExistingFilesFound bool bool           \<comment> \<open>"Existing files found: ..." (Dockerfile, docker-compose.yml)\<close>
  | GenerationSkipped                      \<comment> \<open>"Generation skipped. Use --force to override."\<close>
  | DockerfileGenerated string             \<comment> \<open>"Dockerfile generated/updated at: ..."\<close>
  | ComposeGenerated string                \<comment> \<open>"docker-compose.yml generated/updated at: ..."\<close>
  | FilesReady                             \<comment> \<open>"Files ready! Review them for your project."\<close>
  | TsGenerating string                    \<comment> \<open>generate.ts: "Generating Docker files for stack: ..."\<close>
  | TsWhy                                  \<comment> \<open>generate.ts: "Why? These files define how your app is built ..."\<close>
  | TsDockerfileGenerated string           \<comment> \<open>generate.ts: "Dockerfile generated at: ..."\<close>
  | TsComposeGenerated string              \<comment> \<open>generate.ts: "docker-compose.yml generated at: ..."\<close>
  | TsFilesReady                           \<comment> \<open>generate.ts: "Files ready! Next steps: ..."\<close>
  | TsTip                                  \<comment> \<open>generate.ts: "Tip: Customize the generated files ..."\<close>

datatype question =
    BuildConfirm                           \<comment> \<open>confirm: "Build and push the Docker image?"\<close>
  | DatabaseName                           \<comment> \<open>input: "Database name?"\<close>
  | SelectContainer "(string \<times> string) list"
                                           \<comment> \<open>list: "Select a container to troubleshoot:", choices (name, value)\<close>
  | ViewLogs                               \<comment> \<open>confirm: "View recent logs?"\<close>
  | ChooseStack                            \<comment> \<open>list: "Could not auto-detect stack. Choose one:"\<close>
  | OverwriteConfirm                       \<comment> \<open>confirm: "Overwrite existing files?"\<close>
  | PortAndEntrypoint string               \<comment> \<open>inputs: port, entrypoint (with the entrypoint's default)\<close>

datatype event =
    Log message
  | Ask question
  | Exec string                            \<comment> \<open>\<^verbatim>\<open>execSync(cmd, {stdio: 'inherit'})\<close>\<close>
  | DockerVersion                          \<comment> \<open>\<^verbatim>\<open>docker.version()\<close>\<close>
  | ListContainers                         \<comment> \<open>\<^verbatim>\<open>docker.listContainers({all: true})\<close>\<close>
  | Inspect string                         \<comment> \<open>\<^verbatim>\<open>docker.getContainer(id).inspect()\<close>\<close>
  | ContainerLogs string                   \<comment> \<open>\<^verbatim>\<open>container.logs({stdout, stderr, tail: 20})\<close>\<close>
  | WriteFile string string                \<comment> \<open>\<^verbatim>\<open>fs.writeFile(path, content)\<close>\<close>

type_synonym 'a io = "event list \<times> (error + 'a)"

definition pure_io :: "'a \<Rightarrow> 'a io" where
  "pure_io x = ([], Inr x)"

definition bind_io :: "'a io \<Rightarrow> ('a \<Rightarrow> 'b io) \<Rightarrow> 'b io" where
  "bind_io m k =
     (case snd m of
        Inl e \<Rightarrow> (fst m, Inl e)
      | Inr x \<Rightarrow> (fst m @ fst (k x), snd (k x)))"

definition then_io :: "'a io \<Rightarrow> 'b io \<Rightarrow> 'b io" where
  "then_io m n = bind_io m (\<lambda>_. n)"

fun steps :: "unit io list \<Rightarrow> unit io" where
  "steps [] = pure_io ()"
| "steps (m # ms) = then_io m (steps ms)"

text \<open>
  Everything a run reads from outside is a field of the world: the file system, the
  operator's answers, and the outcome of every external call (\<open>None\<close>: the call
  succeeds; \<open>Some txt\<close> or \<open>Inl txt\<close>: it throws with text \<open>txt\<close>).  The library functions
  \<^verbatim>\<open>path.join\<close> (Node) and \<^verbatim>\<open>dedent\<close> (npm; applied to the raw pieces of a template literal
  and the interpolated values) are fields too.
\<close>

record container_info =
  Id_c :: string   \<comment> \<open>the \<^verbatim>\<open>Id\<close> field\<close>
  Names :: "string list"
  Status :: string

record inspect_info =
  Name :: string
  State_Status :: string
  NetworkSettings_Ports :: "(string \<times> string list) list option"
  Config_Image :: string

record answers =
  port :: string
  entrypoint :: string

record world =
  path_join :: "string \<Rightarrow> string \<Rightarrow> string"
  dedent :: "string list \<Rightarrow> string list \<Rightarrow> string"
  existsSync :: "string \<Rightarrow> bool"
  writeFile_result :: "string \<Rightarrow> string \<Rightarrow> string option"
  execSync_result :: "string \<Rightarrow> string option"
  docker_version_result :: "string option"
  listContainers_result :: "string + container_info list"
  inspect_result :: "string \<Rightarrow> string + inspect_info"
  logs_result :: "string \<Rightarrow> string + string"
  answer_build :: bool
  answer_dbName :: string
  answer_containerId :: string
  answer_checkLogs :: bool
  answer_stack :: string
  answer_overwrite :: bool
  answer_port :: string
  answer_entrypoint :: string

definition log_io :: "message \<Rightarrow> unit io" where
  "log_io m = ([Log m], Inr ())"

text \<open>
  \<^verbatim>\<open>inquirer.prompt\<close> suspends the run until the operator answers; the answer is taken from
  the world.
\<close>

definition prompt :: "question \<Rightarrow> 'a \<Rightarrow> 'a io" where
  "prompt q answer = ([Ask q], Inr answer)"

definition execSync :: "world \<Rightarrow> string \<Rightarrow> unit io" where
  "execSync w cmd =
     ([Exec cmd],
      case execSync_result w cmd of
        None \<Rightarrow> Inr ()
      | Some txt \<Rightarrow> Inl (CommandFailed cmd txt))"

definition docker_version :: "world \<Rightarrow> unit io" where
  "docker_version w =
     ([DockerVersion],
      case docker_version_result w of
        None \<Rightarrow> Inr ()
      | Some txt \<Rightarrow> Inl (DockerApiError txt))"

definition listContainers :: "world \<Rightarrow> container_info list io" where
  "listContainers w =
     ([ListContainers],
      case listContainers_result w of
        Inl txt \<Rightarrow> Inl (DockerApiError txt)
      | Inr cs \<Rightarrow> Inr cs)"

definition container_inspect :: "world \<Rightarrow> string \<Rightarrow> inspect_info io" where
  "container_inspect w cid =
     ([Inspect cid],
      case inspect_result w cid of
        Inl txt \<Rightarrow> Inl (DockerApiError txt)
      | Inr i \<Rightarrow> Inr i)"

definition container_logs :: "world \<Rightarrow> string \<Rightarrow> string io" where
  "container_logs w cid =
     ([ContainerLogs cid],
      case logs_result w cid of
        Inl txt \<Rightarrow> Inl (DockerApiError txt)
      | Inr l \<Rightarrow> Inr l)"

definition writeFile :: "world \<Rightarrow> string \<Rightarrow> string \<Rightarrow> unit io" where
  "writeFile w p content =
     ([WriteFile p content],
      case writeFile_result w p content of
        None \<Rightarrow> Inr ()
      | Some txt \<Rightarrow> Inl (FsError txt))"

text \<open>JavaScript truthiness of a \<^verbatim>\<open>string | undefined\<close>: absent and empty are falsy.\<close>

definition truthy :: "string option \<Rightarrow> bool" where
  "truthy s = (case s of None \<Rightarrow> False | Some v \<Rightarrow> v \<noteq> [])"

section \<open>The migrate command\<close>

record migrate_flags =
  image_flag :: string   \<comment> \<open>the \<^verbatim>\<open>image\<close> flag\<close>
  vps :: "string option"
  dbType :: db_type
  force :: bool

definition checkDockerFiles :: "world \<Rightarrow> bool" where
  "checkDockerFiles w =
     (let dockerfileExists = existsSync w (path_join w ''.'' ''Dockerfile'');
          composeExists = existsSync w (path_join w ''.'' ''docker-compose.yml'')
      in dockerfileExists \<and> composeExists)"

definition buildx_command :: "string \<Rightarrow> string" where
  "buildx_command img =
     ''docker buildx build --platform linux/amd64,linux/arm64 -t '' @ img @ '' --push .''"

definition pg_dump_command :: "string \<Rightarrow> string" where
  "pg_dump_command dbName = ''pg_dump '' @ dbName @ '' > db_dump.sql''"

definition mysqldump_command :: "string \<Rightarrow> string" where
  "mysqldump_command dbName = ''mysqldump '' @ dbName @ '' > db_dump.sql''"

definition compose_up_command :: string where
  "compose_up_command = ''docker-compose up -d''"

text \<open>Step 1 of \<^verbatim>\<open>Migrate.run\<close>: build and push the image.\<close>

definition build_and_push :: "migrate_flags \<Rightarrow> world \<Rightarrow> unit io" where
  "build_and_push flags w =
     bind_io (if force flags then pure_io True else prompt BuildConfirm (answer_build w))
       (\<lambda>build.
          if build then
            steps [log_io BuildingImage,
                   execSync w (buildx_command (image_flag flags)),
                   log_io ImageBuilt]
          else pure_io ())"

text \<open>Step 2: data sync.\<close>

definition data_sync :: "migrate_flags \<Rightarrow> world \<Rightarrow> unit io" where
  "data_sync flags w =
     (if dbType flags \<noteq> Db_none then
        then_io (log_io (SyncingData (dbType flags)))
          (bind_io (prompt DatabaseName (answer_dbName w))
             (\<lambda>dbName.
                steps [if dbType flags = Db_postgres then
                         execSync w (pg_dump_command dbName)
                       else if dbType flags = Db_mysql then
                         execSync w (mysqldump_command dbName)
                       else pure_io (),
                       log_io DataDumped]))
      else log_io SkippingDataSync)"

text \<open>Step 3: staging deployment.\<close>

definition deploy_local :: "world \<Rightarrow> unit io" where
  "deploy_local w =
     steps [log_io DeployingLocally, execSync w compose_up_command, log_io StagingRunning]"

definition deployment :: "migrate_flags \<Rightarrow> world \<Rightarrow> unit io" where
  "deployment flags w =
     steps [log_io CheckingDaemon,
            docker_version w,
            case vps flags of
              None \<Rightarrow> deploy_local w
            | Some v \<Rightarrow>
                if v \<noteq> [] then log_io (DeployingToVps v (image_flag flags))
                else deploy_local w]"

definition migrate_run :: "migrate_flags \<Rightarrow> world \<Rightarrow> unit io" where
  "migrate_run flags w =
     then_io (log_io (MigrateStarting (image_flag flags)))
       (if \<not> checkDockerFiles w then log_io MissingDockerFiles
        else steps [build_and_push flags w,
                    data_sync flags w,
                    deployment flags w,
                    log_io MigrationComplete])"

section \<open>The troubleshoot command\<close>

record troubleshoot_flags =
  container :: "string option"

text \<open>One entry of the selection list: \<^verbatim>\<open>{name: `${c.Names[0]} (${c.Status})`, value: c.Id}\<close>.\<close>

definition container_choice :: "container_info \<Rightarrow> string \<times> string" where
  "container_choice c =
     ((case Names c of [] \<Rightarrow> ''undefined'' | n # _ \<Rightarrow> n) @ '' ('' @ Status c @ '')'', Id_c c)"

definition object_keys :: "('k \<times> 'v) list \<Rightarrow> 'k list" where
  "object_keys ps = remdups (map fst ps)"

text \<open>
  \<^verbatim>\<open>inspect.NetworkSettings.Ports && Object.keys(inspect.NetworkSettings.Ports).length > 0\<close>
\<close>

definition ports_configured :: "(string \<times> string list) list option \<Rightarrow> bool" where
  "ports_configured ports =
     (case ports of None \<Rightarrow> False | Some ps \<Rightarrow> length (object_keys ps) > 0)"

text \<open>Steps 2 to 4 of \<^verbatim>\<open>Troubleshoot.run\<close>, on the resolved container.\<close>

definition troubleshoot_container :: "world \<Rightarrow> string \<Rightarrow> unit io" where
  "troubleshoot_container w targetContainerId =
     bind_io (container_inspect w targetContainerId)
       (\<lambda>inspect.
          steps [log_io (ContainerStats (Name inspect) (State_Status inspect)
                           (NetworkSettings_Ports inspect) (Config_Image inspect)),
                 if State_Status inspect \<noteq> ''running'' then
                   log_io (NotRunning (State_Status inspect) (take 12 targetContainerId))
                 else pure_io (),
                 bind_io (prompt ViewLogs (answer_checkLogs w))
                   (\<lambda>checkLogs.
                      if checkLogs then
                        bind_io (container_logs w targetContainerId)
                          (\<lambda>logs. log_io (RecentLogs logs))
                      else pure_io ()),
                 log_io RunningChecks,
                 if ports_configured (NetworkSettings_Ports inspect) then log_io PortsConfigured
                 else log_io NoPortsExposed,
                 log_io TroubleshootComplete])"

definition troubleshoot_run :: "troubleshoot_flags \<Rightarrow> world \<Rightarrow> unit io" where
  "troubleshoot_run flags w =
     then_io (log_io TroubleshootStarting)
       (bind_io (listContainers w)
          (\<lambda>containers.
             if length containers = 0 then log_io NoContainersFound
             else
               bind_io
                 (if \<not> truthy (container flags) then
                    bind_io (prompt (SelectContainer (map container_choice containers))
                               (answer_containerId w))
                      (\<lambda>containerId. pure_io (Some containerId))
                  else pure_io (container flags))
                 (\<lambda>targetContainerId.
                    case targetContainerId of
                      None \<Rightarrow> log_io NoContainerSelected
                    | Some cid \<Rightarrow>
                        if cid = [] then log_io NoContainerSelected
                        else troubleshoot_container w cid)))"

section \<open>The generate command\<close>

record generate_flags =
  stack :: "string option"
  output_dir :: string   \<comment> \<open>the \<^verbatim>\<open>output\<close> flag\<close>
  force_overwrite :: bool   \<comment> \<open>the \<^verbatim>\<open>force\<close> flag of generate\<close>

definition detectStack :: "world \<Rightarrow> string \<Rightarrow> string option" where
  "detectStack w outputDir =
     (if existsSync w (path_join w outputDir ''package.json'') then Some ''node-prisma''
      else if existsSync w (path_join w outputDir ''requirements.txt'') then Some ''python''
      else if existsSync w (path_join w outputDir ''package.json'')
              \<and> existsSync w (path_join w outputDir ''src/index.js'') then Some ''react''
      else None)"

subsection \<open>Templates\<close>

text \<open>
  A template literal reaches \<^verbatim>\<open>dedent\<close> as its raw pieces (the text between the
  interpolations, line breaks and indentation included) and the interpolated values.
\<close>

definition newline :: char where
  "newline = CHR 0x0A"

definition apostrophe :: char where
  "apostrophe = CHR 0x27"

fun join_lines :: "string list \<Rightarrow> string" where
  "join_lines [] = []"
| "join_lines [l] = l"
| "join_lines (l # ls) = l @ newline # join_lines ls"

definition node_prisma_pieces :: "string list" where
  \<open>node_prisma_pieces =
     [join_lines ['''',
        ''        FROM node:20 AS builder'',
        ''        WORKDIR /app'',
        ''        COPY package*.json ./'',
        ''        RUN npm ci'',
        ''        COPY . .'',
        ''        RUN npx prisma generate'',
        ''        RUN npm run build'',
        '''',
        ''        FROM node:20-slim'',
        ''        WORKDIR /app'',
        ''        COPY --from=builder /app/dist ./dist'',
        ''        COPY --from=builder /app/node_modules ./node_modules'',
        ''        COPY --from=builder /app/prisma ./prisma'',
        ''        ENV NODE_ENV=production'',
        ''        EXPOSE ''],
      join_lines ['''',
        ''        CMD ["node", "''],
      join_lines [''"]'',
        ''      '']]\<close>

definition python_pieces :: "string list" where
  \<open>python_pieces =
     [join_lines ['''',
        ''        FROM python:3.10-slim'',
        ''        WORKDIR /app'',
        ''        COPY requirements.txt ./'',
        ''        RUN pip install -r requirements.txt'',
        ''        COPY . .'',
        ''        EXPOSE ''],
      join_lines ['''',
        ''        CMD ["python", "''],
      join_lines [''"]'',
        ''      '']]\<close>

definition react_pieces :: "string list" where
  \<open>react_pieces =
     [join_lines ['''',
        ''        FROM node:20 AS builder'',
        ''        WORKDIR /app'',
        ''        COPY package*.json ./'',
        ''        RUN npm ci'',
        ''        COPY . .'',
        ''        RUN npm run build'',
        '''',
        ''        FROM nginx:alpine'',
        ''        COPY --from=builder /app/build /usr/share/nginx/html'',
        ''        EXPOSE ''],
      join_lines ['''',
        ''        CMD ["nginx", "-g", "daemon off;"]'',
        ''      '']]\<close>

definition generic_pieces :: "string list" where
  \<open>generic_pieces =
     [join_lines ['''',
        ''        # Default/generic Dockerfile - customize me!'',
        ''        FROM alpine'',
        ''        WORKDIR /app'',
        ''        COPY . .'',
        ''        EXPOSE ''],
      join_lines ['''',
        ''        CMD ["echo", "Hello from generic app"]'',
        ''      '']]\<close>

definition compose_pieces :: "string list" where
  \<open>compose_pieces =
     [join_lines ['''',
        ''      version: '' @ [apostrophe] @ ''3.8'' @ [apostrophe],
        ''      services:'',
        ''        app:'',
        ''          build: .'',
        ''          ports:'',
        ''            - "''],
      '':'',
      join_lines [''"'',
        ''          environment:'',
        ''            - NODE_ENV=production  # Adjust for your stack (e.g., PYTHON_ENV for Python)'',
        ''    '']]\<close>

text \<open>
  The helpers take the \<^verbatim>\<open>dedent\<close> function as their first argument; \<open>None\<close> stands for a
  stack that is \<^verbatim>\<open>null\<close> or \<^verbatim>\<open>undefined\<close>.
\<close>

definition generateDockerfileContent ::
    "(string list \<Rightarrow> string list \<Rightarrow> string) \<Rightarrow> string option \<Rightarrow> answers \<Rightarrow> string" where
  "generateDockerfileContent dedent_fn stack_arg ans =
     (if stack_arg = Some ''node-prisma'' then
        dedent_fn node_prisma_pieces [port ans, entrypoint ans]
      else if stack_arg = Some ''python'' then
        dedent_fn python_pieces [port ans, entrypoint ans]
      else if stack_arg = Some ''react'' then
        dedent_fn react_pieces [port ans]
      else dedent_fn generic_pieces [port ans])"

definition generateComposeContent ::
    "(string list \<Rightarrow> string list \<Rightarrow> string) \<Rightarrow> string option \<Rightarrow> answers \<Rightarrow> string" where
  "generateComposeContent dedent_fn stack_arg ans =
     dedent_fn compose_pieces [port ans, port ans]"

subsection \<open>\<^verbatim>\<open>Generate.run\<close>\<close>

text \<open>Step 1: the stack given by the flag, else auto-detected, else chosen by the operator.\<close>

definition resolve_stack :: "generate_flags \<Rightarrow> world \<Rightarrow> string option io" where
  "resolve_stack flags w =
     (if \<not> truthy (stack flags) then
        (let detectedStack = detectStack w (output_dir flags) in
         then_io
           (log_io (AutoDetected (case detectedStack of
                                    None \<Rightarrow> ''unknown''
                                  | Some s \<Rightarrow> if s \<noteq> [] then s else ''unknown'')))
           (if \<not> truthy detectedStack then
              bind_io (prompt ChooseStack (answer_stack w)) (\<lambda>s. pure_io (Some s))
            else pure_io detectedStack))
      else pure_io (stack flags))"

text \<open>Steps 3 and 4: the customization prompt and the two writes.\<close>

definition write_artifacts :: "generate_flags \<Rightarrow> world \<Rightarrow> string option \<Rightarrow> unit io" where
  "write_artifacts flags w detectedStack =
     (let dockerfilePath = path_join w (output_dir flags) ''Dockerfile'';
          composePath = path_join w (output_dir flags) ''docker-compose.yml''
      in bind_io
           (prompt
              (PortAndEntrypoint (if detectedStack = Some ''python'' then ''app.py''
                                  else ''dist/server.js''))
              \<lparr>port = answer_port w, entrypoint = answer_entrypoint w\<rparr>)
           (\<lambda>ans.
              steps [writeFile w dockerfilePath
                       (generateDockerfileContent (dedent w) detectedStack ans),
                     log_io (DockerfileGenerated dockerfilePath),
                     writeFile w composePath
                       (generateComposeContent (dedent w) detectedStack ans),
                     log_io (ComposeGenerated composePath),
                     log_io FilesReady]))"

text \<open>Step 2, the check for existing files, decides whether steps 3 and 4 run.\<close>

definition generate_run :: "generate_flags \<Rightarrow> world \<Rightarrow> unit io" where
  "generate_run flags w =
     then_io (log_io (GenerateStarting (output_dir flags)))
       (bind_io (resolve_stack flags w)
          (\<lambda>detectedStack.
             let dockerfilePath = path_join w (output_dir flags) ''Dockerfile'';
                 composePath = path_join w (output_dir flags) ''docker-compose.yml'';
                 dockerfileExists = existsSync w dockerfilePath;
                 composeExists = existsSync w composePath
             in if (dockerfileExists \<or> composeExists) \<and> \<not> force_overwrite flags then
                  then_io (log_io (ExistingFilesFound dockerfileExists composeExists))
                    (bind_io (prompt OverwriteConfirm (answer_overwrite w))
                       (\<lambda>overwrite.
                          if \<not> overwrite then log_io GenerationSkipped
                          else write_artifacts flags w detectedStack))
                else write_artifacts flags w detectedStack))"

subsection \<open>The variant in \<^verbatim>\<open>src/commands/generate.ts\<close>\<close>

text \<open>
  The file \<^verbatim>\<open>src/commands/generate.ts\<close> holds a second \<^verbatim>\<open>Generate\<close> class: no
  \<^verbatim>\<open>force\<close> flag, no detection, a \<^verbatim>\<open>stack\<close> flag that defaults to \<^verbatim>\<open>node-prisma\<close>, and templates
  passed through \<^verbatim>\<open>String.prototype.trim\<close>.
\<close>

record generate_ts_flags =
  stack_ts :: string    \<comment> \<open>the \<^verbatim>\<open>stack\<close> flag, \<^verbatim>\<open>default: 'node-prisma'\<close>\<close>
  output_ts :: string   \<comment> \<open>the \<^verbatim>\<open>output\<close> flag\<close>

text \<open>
  \<^verbatim>\<open>trim\<close> strips white space from both ends.  Both templates begin and end with literal
  ASCII white space around a non-blank literal, so the ASCII white space characters suffice.
\<close>

definition is_space :: "char \<Rightarrow> bool" where
  "is_space c = (c \<in> set [CHR 0x09, CHR 0x0A, CHR 0x0B, CHR 0x0C, CHR 0x0D, CHR 0x20])"

definition trim :: "string \<Rightarrow> string" where
  "trim s = rev (dropWhile is_space (rev (dropWhile is_space s)))"

definition ts_dockerfile_template :: "answers \<Rightarrow> string" where
  \<open>ts_dockerfile_template ans =
     join_lines ['''',
       ''FROM node:20 AS builder'',
       ''WORKDIR /app'',
       ''COPY package*.json ./'',
       ''RUN npm ci'',
       ''COPY . .'',
       ''RUN npx prisma generate'',
       ''RUN npm run build'',
       '''',
       ''FROM node:20-slim'',
       ''WORKDIR /app'',
       ''COPY --from=builder /app/dist ./dist'',
       ''COPY --from=builder /app/node_modules ./node_modules'',
       ''COPY --from=builder /app/prisma ./prisma'',
       ''ENV NODE_ENV=production'',
       ''EXPOSE '' @ port ans,
       ''CMD ["node", "'' @ entrypoint ans @ ''"]'',
       ''    '']\<close>

definition ts_compose_template :: "answers \<Rightarrow> string" where
  \<open>ts_compose_template ans =
     join_lines ['''',
       ''version: '' @ [apostrophe] @ ''3.8'' @ [apostrophe],
       ''services:'',
       ''  app:'',
       ''    build: .'',
       ''    ports:'',
       ''      - "'' @ port ans @ '':'' @ port ans @ ''"'',
       ''    environment:'',
       ''      - NODE_ENV=production'',
       ''    '']\<close>

definition generate_ts_run :: "generate_ts_flags \<Rightarrow> world \<Rightarrow> unit io" where
  "generate_ts_run flags w =
     steps [log_io (TsGenerating (stack_ts flags)),
            log_io TsWhy,
            bind_io
              (prompt (PortAndEntrypoint ''dist/server.js'')
                 \<lparr>port = answer_port w, entrypoint = answer_entrypoint w\<rparr>)
              (\<lambda>ans.
                 let dockerfileContent =
                       (if stack_ts flags = ''react'' then ''# TODO: React-specific Dockerfile''
                        else if stack_ts flags = ''python'' then
                          ''# TODO: Python-specific Dockerfile''
                        else trim (ts_dockerfile_template ans));
                     dockerfilePath = path_join w (output_ts flags) ''Dockerfile'';
                     composeContent = trim (ts_compose_template ans);
                     composePath = path_join w (output_ts flags) ''docker-compose.yml''
                 in steps [writeFile w dockerfilePath dockerfileContent,
                           log_io (TsDockerfileGenerated dockerfilePath),
                           writeFile w composePath composeContent,
                           log_io (TsComposeGenerated composePath),
                           log_io TsFilesReady,
                           log_io TsTip])]"

section \<open>Observing a run\<close>

text \<open>
  The events that belong to step 2 (data sync) and to step 3 (staging deployment) of
  \<^verbatim>\<open>Migrate.run\<close>.
\<close>

fun data_sync_event :: "event \<Rightarrow> bool" where
  "data_sync_event (Log (SyncingData _)) = True"
| "data_sync_event (Log DataDumped) = True"
| "data_sync_event (Log SkippingDataSync) = True"
| "data_sync_event (Ask DatabaseName) = True"
| "data_sync_event (Exec cmd) = (take 8 cmd = ''pg_dump '' \<or> take 10 cmd = ''mysqldump '')"
| "data_sync_event _ = False"

fun deployment_event :: "event \<Rightarrow> bool" where
  "deployment_event (Log CheckingDaemon) = True"
| "deployment_event DockerVersion = True"
| "deployment_event (Log (DeployingToVps _ _)) = True"
| "deployment_event (Log DeployingLocally) = True"
| "deployment_event (Log StagingRunning) = True"
| "deployment_event (Exec cmd) = (cmd = compose_up_command)"
| "deployment_event _ = False"

text \<open>
  The command line of the dump, and the events of a migrate run up to and including the
  daemon check, after which the branch on \<^verbatim>\<open>flags.vps\<close> is taken.
\<close>

definition dump_command_of :: "migrate_flags \<Rightarrow> world \<Rightarrow> string" where
  "dump_command_of flags w =
     (if dbType flags = Db_postgres then pg_dump_command (answer_dbName w)
      else mysqldump_command (answer_dbName w))"

definition before_selector :: "migrate_flags \<Rightarrow> world \<Rightarrow> event list" where
  "before_selector flags w =
     Log (MigrateStarting (image_flag flags)) # fst (build_and_push flags w)
       @ fst (data_sync flags w) @ [Log CheckingDaemon, DockerVersion]"

text \<open>
  A run reaches the deployment step when the prerequisites are present and steps 1 and 2
  complete.  \<open>local_branch\<close> lists the events of the local path of step 3.
\<close>

definition reaches_deployment :: "migrate_flags \<Rightarrow> world \<Rightarrow> bool" where
  "reaches_deployment flags w =
     (checkDockerFiles w \<and> snd (build_and_push flags w) = Inr ()
      \<and> snd (data_sync flags w) = Inr ())"

definition local_branch :: "world \<Rightarrow> event list" where
  "local_branch w =
     Log DeployingLocally # Exec compose_up_command
       # (if execSync_result w compose_up_command = None
          then [Log StagingRunning, Log MigrationComplete] else [])"

text \<open>
  \<open>failure_of w ev\<close> is the error that the external call \<open>ev\<close> throws in the world \<open>w\<close>,
  if it throws.  A run leaves failures uncaught when it ends with an error exactly if the
  last call it made threw that error, every call before having succeeded.
\<close>

definition failure_of :: "world \<Rightarrow> event \<Rightarrow> error option" where
  "failure_of w ev =
     (case ev of
        Exec cmd \<Rightarrow> map_option (CommandFailed cmd) (execSync_result w cmd)
      | DockerVersion \<Rightarrow> map_option DockerApiError (docker_version_result w)
      | ListContainers \<Rightarrow>
          (case listContainers_result w of Inl txt \<Rightarrow> Some (DockerApiError txt) | Inr _ \<Rightarrow> None)
      | Inspect cid \<Rightarrow>
          (case inspect_result w cid of Inl txt \<Rightarrow> Some (DockerApiError txt) | Inr _ \<Rightarrow> None)
      | ContainerLogs cid \<Rightarrow>
          (case logs_result w cid of Inl txt \<Rightarrow> Some (DockerApiError txt) | Inr _ \<Rightarrow> None)
      | WriteFile p c \<Rightarrow> map_option FsError (writeFile_result w p c)
      | _ \<Rightarrow> None)"

definition uncaught :: "world \<Rightarrow> 'a io \<Rightarrow> bool" where
  "uncaught w r =
     (case snd r of
        Inl e \<Rightarrow> fst r \<noteq> [] \<and> failure_of w (last (fst r)) = Some e
                 \<and> list_all (\<lambda>ev. failure_of w ev = None) (butlast (fst r))
      | Inr _ \<Rightarrow> list_all (\<lambda>ev. failure_of w ev = None) (fst r))"

text \<open>
  The paths handed to \<^verbatim>\<open>fs.writeFile\<close>, in order.
\<close>

fun written_paths :: "event list \<Rightarrow> string list" where
  "written_paths [] = []"
| "written_paths (WriteFile p c # es) = p # written_paths es"
| "written_paths (e # es) = written_paths es"

text \<open>
  The contents handed to \<^verbatim>\<open>fs.writeFile\<close>, in order.
\<close>

fun written_contents :: "event list \<Rightarrow> string list" where
  "written_contents [] = []"
| "written_contents (WriteFile p c # es) = c # written_contents es"
| "written_contents (e # es) = written_contents es"

text \<open>
  The contract of the Artifact Guard in the words of the specification: generation is
  authorized iff neither artifact exists, or \<^verbatim>\<open>force\<close> is true, or the operator confirms the
  overwrite (\<open>answer_overwrite\<close> is the answer the operator gives when asked).
\<close>

definition guard_authorizes :: "generate_flags \<Rightarrow> world \<Rightarrow> bool" where
  "guard_authorizes flags w =
     ((\<not> existsSync w (path_join w (output_dir flags) ''Dockerfile'')
        \<and> \<not> existsSync w (path_join w (output_dir flags) ''docker-compose.yml''))
      \<or> force_overwrite flags
      \<or> answer_overwrite w)"

section \<open>Sample worlds\<close>

text \<open>
  Concrete flags and worlds on which the theorems below are evaluated.  \<open>sample_join\<close>
  joins as \<^verbatim>\<open>path.join\<close> does on these inputs; \<open>interpolate\<close> stands in for \<^verbatim>\<open>dedent\<close> and
  only interleaves pieces and values.  In \<open>project_world\<close> both artifacts exist, every
  external call succeeds, and the one container has exited and binds no port.
\<close>

fun interpolate :: "string list \<Rightarrow> string list \<Rightarrow> string" where
  "interpolate [] vs = []"
| "interpolate (p # ps) [] = p @ interpolate ps []"
| "interpolate (p # ps) (v # vs) = p @ v @ interpolate ps vs"

definition sample_join :: "string \<Rightarrow> string \<Rightarrow> string" where
  "sample_join dir file = (if dir = ''.'' then file else dir @ ''/'' @ file)"

definition web_container :: container_info where
  "web_container = \<lparr>Id_c = ''4f5a6b7c8d9e0f1a2b3c'', Names = [''/web''], Status = ''Exited (1) 2 hours ago''\<rparr>"

definition web_inspect :: inspect_info where
  "web_inspect = \<lparr>Name = ''/web'', State_Status = ''exited'', NetworkSettings_Ports = Some [],
                   Config_Image = ''myapp:latest''\<rparr>"

definition project_world :: world where
  "project_world =
     \<lparr>path_join = sample_join, dedent = interpolate,
      existsSync = (\<lambda>p. p = ''Dockerfile'' \<or> p = ''docker-compose.yml''),
      writeFile_result = (\<lambda>p c. None),
      execSync_result = (\<lambda>cmd. None),
      docker_version_result = None,
      listContainers_result = Inr [web_container],
      inspect_result = (\<lambda>cid. Inr web_inspect),
      logs_result = (\<lambda>cid. Inr ''listening on 3000''),
      answer_build = True, answer_dbName = ''yourdb'',
      answer_containerId = ''4f5a6b7c8d9e0f1a2b3c'', answer_checkLogs = True,
      answer_stack = ''other'', answer_overwrite = False,
      answer_port = ''3000'', answer_entrypoint = ''dist/server.js''\<rparr>"

text \<open>
  Flags of migrate runs.
\<close>

definition plain_flags :: migrate_flags where
  "plain_flags = \<lparr>image_flag = ''myapp:latest'', vps = None, dbType = Db_none, force = True\<rparr>"

definition postgres_flags :: migrate_flags where
  "postgres_flags = \<lparr>image_flag = ''myapp:latest'', vps = None, dbType = Db_postgres, force = True\<rparr>"

definition vps_flags :: migrate_flags where
  "vps_flags = \<lparr>image_flag = ''myapp:latest'', vps = Some ''deploy@203.0.113.7'',
                 dbType = Db_none, force = True\<rparr>"

definition prompted_flags :: migrate_flags where
  "prompted_flags = \<lparr>image_flag = ''myapp:latest'', vps = Some ''deploy@203.0.113.7'',
                      dbType = Db_postgres, force = False\<rparr>"

definition prompted_vps_flags :: migrate_flags where
  "prompted_vps_flags = \<lparr>image_flag = ''myapp:latest'', vps = Some ''deploy@203.0.113.7'',
                          dbType = Db_none, force = False\<rparr>"

definition local_prompted_flags :: migrate_flags where
  "local_prompted_flags = \<lparr>image_flag = ''myapp:latest'', vps = None, dbType = Db_none,
                            force = False\<rparr>"

definition empty_vps_flags :: migrate_flags where
  "empty_vps_flags = \<lparr>image_flag = ''myapp:latest'', vps = Some [], dbType = Db_mysql,
                       force = False\<rparr>"

text \<open>
  Worlds in which one external call fails, or the operator declines the build.
\<close>

definition build_fails_world :: world where
  "build_fails_world =
     project_world\<lparr>execSync_result :=
       (\<lambda>cmd. if cmd = buildx_command ''myapp:latest'' then Some ''exit status 1'' else None)\<rparr>"

definition buildx_crash_world :: world where
  "buildx_crash_world =
     project_world\<lparr>execSync_result :=
       (\<lambda>cmd. if cmd = buildx_command ''myapp:latest''
              then Some (''Command failed: '' @ buildx_command ''myapp:latest'') else None)\<rparr>"

definition dump_fails_world :: world where
  "dump_fails_world =
     project_world\<lparr>execSync_result :=
       (\<lambda>cmd. if cmd = pg_dump_command ''yourdb'' then Some ''pg_dump: not found'' else None)\<rparr>"

definition declined_world :: world where
  "declined_world = dump_fails_world\<lparr>answer_build := False\<rparr>"

definition mysql_fails_world :: world where
  "mysql_fails_world =
     project_world\<lparr>answer_build := False,
       execSync_result :=
         (\<lambda>cmd. if cmd = mysqldump_command ''yourdb'' then Some ''mysqldump: not found''
                else None)\<rparr>"

definition daemon_down_world :: world where
  "daemon_down_world =
     project_world\<lparr>docker_version_result := Some ''connect ENOENT /var/run/docker.sock''\<rparr>"

definition declining_world :: world where
  "declining_world = project_world\<lparr>answer_build := False\<rparr>"

definition no_dockerfile_world :: world where
  "no_dockerfile_world = project_world\<lparr>existsSync := (\<lambda>p. p = ''docker-compose.yml'')\<rparr>"

text \<open>
  Troubleshoot runs.
\<close>

definition any_container_flags :: troubleshoot_flags where
  "any_container_flags = \<lparr>container = None\<rparr>"

definition named_container_flags :: troubleshoot_flags where
  "named_container_flags = \<lparr>container = Some ''web''\<rparr>"

definition no_containers_world :: world where
  "no_containers_world = project_world\<lparr>listContainers_result := Inr []\<rparr>"

definition logs_fail_world :: world where
  "logs_fail_world =
     project_world\<lparr>logs_result :=
       (\<lambda>cid. Inl ''configured logging driver does not support reading'')\<rparr>"

text \<open>
  Generate runs.
\<close>

definition python_flags :: generate_flags where
  "python_flags = \<lparr>stack = Some ''python'', output_dir = ''.'', force_overwrite = False\<rparr>"

definition ts_flags :: generate_ts_flags where
  "ts_flags = \<lparr>stack_ts = ''node-prisma'', output_ts = ''.''\<rparr>"

definition fresh_dir_world :: world where
  "fresh_dir_world = project_world\<lparr>existsSync := (\<lambda>p. False)\<rparr>"

definition write_fails_world :: world where
  "write_fails_world =
     fresh_dir_world\<lparr>writeFile_result :=
       (\<lambda>p c. if p = ''Dockerfile'' then Some ''EACCES: permission denied'' else None)\<rparr>"

section \<open>Unfolding runs\<close>

lemmas io_defs = pure_io_def bind_io_def then_io_def log_io_def prompt_def execSync_def
  docker_version_def listContainers_def container_inspect_def container_logs_def writeFile_def

lemmas migrate_defs = migrate_run_def build_and_push_def data_sync_def deployment_def
  deploy_local_def checkDockerFiles_def buildx_command_def pg_dump_command_def
  mysqldump_command_def compose_up_command_def

lemmas troubleshoot_defs = troubleshoot_run_def troubleshoot_container_def
  container_choice_def ports_configured_def object_keys_def truthy_def

lemmas generate_defs = generate_run_def resolve_stack_def write_artifacts_def detectStack_def
  truthy_def

lemmas sample_defs = sample_join_def web_container_def web_inspect_def project_world_def
  plain_flags_def postgres_flags_def vps_flags_def prompted_flags_def prompted_vps_flags_def
  empty_vps_flags_def build_fails_world_def dump_fails_world_def declined_world_def
  mysql_fails_world_def daemon_down_world_def declining_world_def no_dockerfile_world_def
  any_container_flags_def named_container_flags_def no_containers_world_def
  logs_fail_world_def python_flags_def ts_flags_def fresh_dir_world_def write_fails_world_def
  buildx_crash_world_def local_prompted_flags_def

text \<open>The trace and the result of a composed run, one step at a time.\<close>

lemma fst_bind_io:
  "fst (bind_io m k) = (case snd m of Inl e \<Rightarrow> fst m | Inr x \<Rightarrow> fst m @ fst (k x))"
  by (simp add: bind_io_def split: sum.splits)

lemma snd_bind_io:
  "snd (bind_io m k) = (case snd m of Inl e \<Rightarrow> Inl e | Inr x \<Rightarrow> snd (k x))"
  by (simp add: bind_io_def split: sum.splits)

lemma fst_then_io:
  "fst (then_io m n) = (case snd m of Inl e \<Rightarrow> fst m | Inr x \<Rightarrow> fst m @ fst n)"
  by (simp add: then_io_def fst_bind_io)

lemma snd_then_io:
  "snd (then_io m n) = (case snd m of Inl e \<Rightarrow> Inl e | Inr x \<Rightarrow> snd n)"
  by (simp add: then_io_def snd_bind_io)

lemma prim_simps:
  "fst (pure_io x) = []" "snd (pure_io x) = Inr x"
  "fst (log_io msg) = [Log msg]" "snd (log_io msg) = Inr ()"
  "fst (prompt q a) = [Ask q]" "snd (prompt q a) = Inr a"
  by (simp_all add: pure_io_def log_io_def prompt_def)

lemmas run_simps = fst_bind_io snd_bind_io fst_then_io snd_then_io prim_simps

text \<open>The command lines of the three steps never coincide, whatever the image and database names.\<close>

lemma command_distinct:
  "buildx_command img \<noteq> compose_up_command"
  "pg_dump_command db \<noteq> compose_up_command"
  "mysqldump_command db \<noteq> compose_up_command"
  "buildx_command img \<noteq> pg_dump_command db"
  "buildx_command img \<noteq> mysqldump_command db"
  by (simp_all add: buildx_command_def pg_dump_command_def mysqldump_command_def
        compose_up_command_def)

section \<open>No step of migrate catches a failure\<close>

text \<open>
  \<^verbatim>\<open>Migrate.run\<close> has no \<^verbatim>\<open>try\<close>/\<^verbatim>\<open>catch\<close>.  Every primitive leaves failures uncaught, and
  sequencing preserves that.
\<close>

lemma uncaught_pure: "uncaught w (pure_io x)"
  by (simp add: uncaught_def pure_io_def)

lemma uncaught_log: "uncaught w (log_io m)"
  by (simp add: uncaught_def log_io_def failure_of_def)

lemma uncaught_prompt: "uncaught w (prompt q a)"
  by (simp add: uncaught_def prompt_def failure_of_def)

lemma uncaught_execSync: "uncaught w (execSync w cmd)"
  by (simp add: uncaught_def execSync_def failure_of_def split: option.splits)

lemma uncaught_docker_version: "uncaught w (docker_version w)"
  by (simp add: uncaught_def docker_version_def failure_of_def split: option.splits)

lemma uncaught_bind:
  assumes "uncaught w m" and "\<And>x. snd m = Inr x \<Longrightarrow> uncaught w (k x)"
  shows "uncaught w (bind_io m k)"
proof (cases "snd m")
  case (Inl e)
  with assms(1) show ?thesis by (simp add: uncaught_def bind_io_def)
next
  case (Inr x)
  with assms(1) assms(2)[OF Inr] show ?thesis
    by (cases "snd (k x)") (auto simp: uncaught_def bind_io_def butlast_append)
qed

lemma uncaught_then: "uncaught w m \<Longrightarrow> uncaught w n \<Longrightarrow> uncaught w (then_io m n)"
  by (simp add: then_io_def uncaught_bind)

lemma uncaught_steps: "list_all (uncaught w) ms \<Longrightarrow> uncaught w (steps ms)"
  by (induction ms) (simp_all add: uncaught_pure uncaught_then)

lemmas uncaught_intros = uncaught_pure uncaught_log uncaught_prompt uncaught_execSync
  uncaught_docker_version uncaught_then uncaught_steps

lemma uncaught_build: "uncaught w (build_and_push flags w)"
  unfolding build_and_push_def
  by (intro uncaught_bind) (auto intro!: uncaught_intros)

lemma uncaught_data_sync: "uncaught w (data_sync flags w)"
  unfolding data_sync_def
  by (auto intro!: uncaught_intros uncaught_bind)

lemma uncaught_deployment: "uncaught w (deployment flags w)"
  unfolding deployment_def deploy_local_def
  by (auto intro!: uncaught_intros split: option.splits)

lemma uncaught_migrate: "uncaught w (migrate_run flags w)"
  unfolding migrate_run_def
  by (auto intro!: uncaught_intros uncaught_build uncaught_data_sync uncaught_deployment)

section \<open>Properties of migrate\<close>

subsection \<open>Missing prerequisites\<close>

text \<open>
  Claim C8.  When the Dockerfile or docker-compose.yml is missing, a migrate run logs its
  opening line and the missing-files notice and returns: no prompt, no build, no dump, no
  daemon call, no deployment.  When the container list comes back empty, a troubleshoot run
  logs its opening line, lists the containers, logs the no-containers notice and returns:
  no selection, no inspection, no log read.  Both runs return normally.
\<close>

theorem missing_prerequisite_returns_early:
  "(\<not> existsSync w (path_join w ''.'' ''Dockerfile'')
      \<or> \<not> existsSync w (path_join w ''.'' ''docker-compose.yml'')
     \<longrightarrow> migrate_run flags w
           = ([Log (MigrateStarting (image_flag flags)), Log MissingDockerFiles], Inr ()))
   \<and> (listContainers_result w = Inr []
     \<longrightarrow> troubleshoot_run tflags w
           = ([Log TroubleshootStarting, ListContainers, Log NoContainersFound], Inr ()))"
  by (auto simp: migrate_run_def checkDockerFiles_def troubleshoot_run_def io_defs)

text \<open>Evaluated with the Dockerfile missing, and with an empty container list.\<close>

theorem missing_prerequisite_returns_early_witness:
  "\<not> existsSync no_dockerfile_world (path_join no_dockerfile_world ''.'' ''Dockerfile'')
   \<and> migrate_run postgres_flags no_dockerfile_world
       = ([Log (MigrateStarting ''myapp:latest''), Log MissingDockerFiles], Inr ())
   \<and> listContainers_result no_containers_world = Inr []
   \<and> troubleshoot_run any_container_flags no_containers_world
       = ([Log TroubleshootStarting, ListContainers, Log NoContainersFound], Inr ())"
proof -
  have h1: "\<not> existsSync no_dockerfile_world (path_join no_dockerfile_world ''.'' ''Dockerfile'')"
    by (simp add: sample_defs)
  have h2: "listContainers_result no_containers_world = Inr []"
    by (simp add: sample_defs)
  have i: "image_flag postgres_flags = ''myapp:latest''"
    by (simp add: postgres_flags_def)
  from missing_prerequisite_returns_early
         [of no_dockerfile_world postgres_flags any_container_flags] h1
  have m: "migrate_run postgres_flags no_dockerfile_world
       = ([Log (MigrateStarting ''myapp:latest''), Log MissingDockerFiles], Inr ())"
    unfolding i by blast
  from missing_prerequisite_returns_early
         [of no_containers_world postgres_flags any_container_flags] h2
  have t: "troubleshoot_run any_container_flags no_containers_world
       = ([Log TroubleshootStarting, ListContainers, Log NoContainersFound], Inr ())"
    by blast
  from h1 h2 m t show ?thesis by blast
qed

subsection \<open>Build failure\<close>

text \<open>
  Claim C2, as the code has it.  When the build is attempted (the artifacts exist, and the
  run is forced or the operator confirms) and \<^verbatim>\<open>docker buildx\<close> fails, the build command is the
  last thing the run does: no event of the data-sync step and no event of the deployment
  step occurs, nothing is logged after the command, and the run ends with the exception that
  \<^verbatim>\<open>execSync\<close> throws for the build command, uncaught.  The run does not end in a failed state
  of its own that carries the tool's error text: no state is recorded and no report is made,
  and what the exception carries is the text of the error \<^verbatim>\<open>execSync\<close> throws.
\<close>

theorem build_failure_halts_pipeline:
  assumes "checkDockerFiles w"
      and "force flags \<or> answer_build w"
      and "execSync_result w (buildx_command (image_flag flags)) = Some txt"
  shows "snd (migrate_run flags w) = Inl (CommandFailed (buildx_command (image_flag flags)) txt)
       \<and> fst (migrate_run flags w) =
           Log (MigrateStarting (image_flag flags))
             # (if force flags then [] else [Ask BuildConfirm])
             @ [Log BuildingImage, Exec (buildx_command (image_flag flags))]
       \<and> filter data_sync_event (fst (migrate_run flags w)) = []
       \<and> filter deployment_event (fst (migrate_run flags w)) = []"
  using assms
  by (auto simp: migrate_run_def build_and_push_def io_defs buildx_command_def
        compose_up_command_def)

text \<open>Evaluated on a forced run whose build exits with status 1.\<close>

theorem build_failure_halts_pipeline_witness:
  "snd (migrate_run plain_flags build_fails_world)
     = Inl (CommandFailed (buildx_command ''myapp:latest'') ''exit status 1'')
   \<and> fst (migrate_run plain_flags build_fails_world) =
       [Log (MigrateStarting ''myapp:latest''), Log BuildingImage,
        Exec (buildx_command ''myapp:latest'')]"
  using build_failure_halts_pipeline [of build_fails_world plain_flags "''exit status 1''"]
  by (simp add: sample_defs checkDockerFiles_def)

text \<open>
  The claim as stated fails on a confirmed build that exits nonzero.  The command runs with
  \<^verbatim>\<open>stdio: 'inherit'\<close>, so the tool's own output goes to the terminal and the error of
  \<^verbatim>\<open>execSync\<close> reads \<^verbatim>\<open>Command failed:\<close> followed by the command line.  The run ends with that
  error as an uncaught exception, the build command being its last event: it reaches no
  failed state and reports nothing.
\<close>

theorem build_failure_counterexample:
  "snd (migrate_run prompted_flags buildx_crash_world)
     = Inl (CommandFailed (buildx_command ''myapp:latest'')
             (''Command failed: '' @ buildx_command ''myapp:latest''))
   \<and> fst (migrate_run prompted_flags buildx_crash_world)
     = [Log (MigrateStarting ''myapp:latest''), Ask BuildConfirm, Log BuildingImage,
        Exec (buildx_command ''myapp:latest'')]
   \<and> uncaught buildx_crash_world (migrate_run prompted_flags buildx_crash_world)"
  by (simp add: sample_defs migrate_run_def build_and_push_def checkDockerFiles_def
        io_defs uncaught_def failure_of_def)

subsection \<open>Failures propagate\<close>

text \<open>
  Claim C3, as the code has it.  The claim that every external failure is caught at the
  step boundary and turned into a reported error does not hold: nothing is caught.  If a
  migrate run ends with an error, that error is the failure of the last external call the
  run made, and every call before it succeeded; so the run stops at the first failing call
  and logs nothing after it.  A run returns normally only if no call it made failed.
\<close>

theorem migrate_failures_propagate:
  "(\<forall>e. snd (migrate_run flags w) = Inl e \<longrightarrow>
        fst (migrate_run flags w) \<noteq> []
      \<and> failure_of w (last (fst (migrate_run flags w))) = Some e
      \<and> (\<forall>ev \<in> set (butlast (fst (migrate_run flags w))). failure_of w ev = None))
   \<and> (snd (migrate_run flags w) = Inr () \<longrightarrow>
        (\<forall>ev \<in> set (fst (migrate_run flags w)). failure_of w ev = None))"
  using uncaught_migrate [of w flags]
  by (auto simp: uncaught_def list_all_iff split: sum.splits)

text \<open>Evaluated on a run whose build fails.\<close>

theorem migrate_failures_propagate_witness:
  "snd (migrate_run postgres_flags build_fails_world)
     = Inl (CommandFailed (buildx_command ''myapp:latest'') ''exit status 1'')
   \<and> failure_of build_fails_world (last (fst (migrate_run postgres_flags build_fails_world)))
     = Some (CommandFailed (buildx_command ''myapp:latest'') ''exit status 1'')"
proof -
  have r: "snd (migrate_run postgres_flags build_fails_world)
     = Inl (CommandFailed (buildx_command ''myapp:latest'') ''exit status 1'')"
    by (simp add: sample_defs migrate_defs io_defs)
  with migrate_failures_propagate [of postgres_flags build_fails_world]
  show ?thesis by simp
qed

text \<open>
  The claim as stated fails when the Docker daemon is unreachable: \<^verbatim>\<open>docker.version()\<close>
  rejects, the run ends with that error, and the daemon call is its last event.
\<close>

theorem migrate_crash_counterexample:
  "snd (migrate_run plain_flags daemon_down_world)
     = Inl (DockerApiError ''connect ENOENT /var/run/docker.sock'')
   \<and> last (fst (migrate_run plain_flags daemon_down_world)) = DockerVersion"
  by (simp add: sample_defs migrate_defs io_defs)

subsection \<open>Dump failure\<close>

lemma build_and_push_no_deployment_event:
  "filter deployment_event (fst (build_and_push flags w)) = []"
  by (simp add: build_and_push_def io_defs buildx_command_def compose_up_command_def
        split: option.splits)

text \<open>
  Claim C4, as the code has it.  The claim that a dump failure is surfaced as a warning
  and deployment still runs does not hold.  With \<^verbatim>\<open>dbType\<close> postgres or mysql, once step 1 is
  over and the dump command fails, the run ends with the failure of the dump command right
  after issuing it: the dump-success line is not logged, no warning is logged, and no event
  of the deployment step occurs.
\<close>

theorem dump_failure_aborts_run:
  assumes "checkDockerFiles w"
      and "snd (build_and_push flags w) = Inr ()"
      and "dbType flags = Db_postgres \<or> dbType flags = Db_mysql"
      and "execSync_result w (dump_command_of flags w) = Some txt"
  shows "snd (migrate_run flags w) = Inl (CommandFailed (dump_command_of flags w) txt)
       \<and> fst (migrate_run flags w) =
           Log (MigrateStarting (image_flag flags)) # fst (build_and_push flags w)
             @ [Log (SyncingData (dbType flags)), Ask DatabaseName,
                Exec (dump_command_of flags w)]
       \<and> Log DataDumped \<notin> set (fst (migrate_run flags w))
       \<and> filter deployment_event (fst (migrate_run flags w)) = []"
proof -
  have ds: "data_sync flags w =
      ([Log (SyncingData (dbType flags)), Ask DatabaseName, Exec (dump_command_of flags w)],
       Inl (CommandFailed (dump_command_of flags w) txt))"
    using assms(3,4) by (auto simp: data_sync_def dump_command_of_def io_defs)
  have run: "migrate_run flags w =
      (Log (MigrateStarting (image_flag flags)) # fst (build_and_push flags w)
         @ [Log (SyncingData (dbType flags)), Ask DatabaseName, Exec (dump_command_of flags w)],
       Inl (CommandFailed (dump_command_of flags w) txt))"
    using assms(1,2) by (simp add: migrate_run_def ds io_defs)
  have nb: "Log DataDumped \<notin> set (fst (build_and_push flags w))"
    by (simp add: build_and_push_def io_defs split: option.splits)
  have nd: "\<not> deployment_event (Exec (dump_command_of flags w))"
    by (simp add: dump_command_of_def pg_dump_command_def mysqldump_command_def
          compose_up_command_def)
  show ?thesis
    using nb nd build_and_push_no_deployment_event [of flags w] by (simp add: run)
qed

text \<open>Evaluated on a run where the operator declines the build and \<^verbatim>\<open>pg_dump\<close> is missing.\<close>

theorem dump_failure_aborts_run_witness:
  "checkDockerFiles declined_world
   \<and> snd (build_and_push prompted_flags declined_world) = Inr ()
   \<and> execSync_result declined_world (dump_command_of prompted_flags declined_world)
       = Some ''pg_dump: not found''
   \<and> snd (migrate_run prompted_flags declined_world)
       = Inl (CommandFailed (pg_dump_command ''yourdb'') ''pg_dump: not found'')
   \<and> filter deployment_event (fst (migrate_run prompted_flags declined_world)) = []"
proof -
  have h1: "checkDockerFiles declined_world"
    by (simp add: sample_defs checkDockerFiles_def)
  have h2: "snd (build_and_push prompted_flags declined_world) = Inr ()"
    by (simp add: sample_defs build_and_push_def io_defs)
  have h3: "dbType prompted_flags = Db_postgres \<or> dbType prompted_flags = Db_mysql"
    by (simp add: prompted_flags_def)
  have h4: "execSync_result declined_world (dump_command_of prompted_flags declined_world)
       = Some ''pg_dump: not found''"
    by (simp add: sample_defs dump_command_of_def)
  have c: "dump_command_of prompted_flags declined_world = pg_dump_command ''yourdb''"
    by (simp add: sample_defs dump_command_of_def)
  from dump_failure_aborts_run [OF h1 h2 h3 h4]
  have "snd (migrate_run prompted_flags declined_world)
          = Inl (CommandFailed (dump_command_of prompted_flags declined_world)
                  ''pg_dump: not found'')"
    and "filter deployment_event (fst (migrate_run prompted_flags declined_world)) = []"
    by blast+
  with h1 h2 h4 show ?thesis unfolding c by blast
qed

text \<open>
  The claim as stated fails on a forced postgres run whose \<^verbatim>\<open>pg_dump\<close> is missing: the run
  ends with the dump failure, its last event is the dump command, and the deployment step
  never starts.
\<close>

theorem dump_failure_counterexample:
  "snd (migrate_run postgres_flags dump_fails_world)
     = Inl (CommandFailed (pg_dump_command ''yourdb'') ''pg_dump: not found'')
   \<and> last (fst (migrate_run postgres_flags dump_fails_world)) = Exec (pg_dump_command ''yourdb'')
   \<and> filter deployment_event (fst (migrate_run postgres_flags dump_fails_world)) = []"
  by (simp add: sample_defs migrate_defs io_defs)

subsection \<open>Deployment branch\<close>

lemma before_selector_no_branch:
  "Exec compose_up_command \<notin> set (before_selector flags w)"
  "Log (DeployingToVps v i) \<notin> set (before_selector flags w)"
  by (auto simp: before_selector_def build_and_push_def data_sync_def io_defs command_distinct
        command_distinct [THEN not_sym] split: option.splits if_splits)

lemma migrate_trace_selected:
  assumes "reaches_deployment flags w" and "docker_version_result w = None"
  shows "fst (migrate_run flags w) =
           before_selector flags w
             @ (case vps flags of
                  None \<Rightarrow> local_branch w
                | Some v \<Rightarrow>
                    if v \<noteq> [] then [Log (DeployingToVps v (image_flag flags)),
                                     Log MigrationComplete]
                    else local_branch w)"
  using assms
  by (auto simp: reaches_deployment_def migrate_run_def deployment_def deploy_local_def
        before_selector_def local_branch_def run_simps docker_version_def execSync_def
        split: option.splits)

lemma migrate_trace_not_selected:
  assumes "\<not> (reaches_deployment flags w \<and> docker_version_result w = None)"
  shows "set (fst (migrate_run flags w))
           \<subseteq> set (before_selector flags w) \<union> {Log MissingDockerFiles}"
  using assms
  by (auto simp: reaches_deployment_def migrate_run_def deployment_def
        before_selector_def run_simps docker_version_def
        split: sum.splits option.splits)

text \<open>
  Claim C6, as the code has it.  No migrate run takes both paths; a run executes
  \<^verbatim>\<open>docker-compose up -d\<close> only if \<^verbatim>\<open>vps\<close> is absent or empty, and logs the manual instructions
  only if \<^verbatim>\<open>vps\<close> is a non-empty string.  Step 3 begins with the daemon check: when the
  check fails, neither path is taken.  When a run reaches the deployment step and the check
  succeeds, what follows the check is exactly the local path (the announcement,
  \<^verbatim>\<open>docker-compose up -d\<close>, and the closing lines if that command succeeds) if \<^verbatim>\<open>vps\<close> is absent
  or empty, and exactly the manual instructions, naming the target and the image, followed
  by the closing line otherwise.  Without the proviso on the daemon check the claim fails.
\<close>

theorem deployment_branch_exclusive:
  "\<not> (Exec compose_up_command \<in> set (fst (migrate_run flags w))
       \<and> (\<exists>v i. Log (DeployingToVps v i) \<in> set (fst (migrate_run flags w))))
   \<and> (Exec compose_up_command \<in> set (fst (migrate_run flags w)) \<longrightarrow> \<not> truthy (vps flags))
   \<and> ((\<exists>v i. Log (DeployingToVps v i) \<in> set (fst (migrate_run flags w)))
        \<longrightarrow> truthy (vps flags))
   \<and> (docker_version_result w \<noteq> None
        \<longrightarrow> Exec compose_up_command \<notin> set (fst (migrate_run flags w))
          \<and> (\<forall>v i. Log (DeployingToVps v i) \<notin> set (fst (migrate_run flags w))))
   \<and> (reaches_deployment flags w \<and> docker_version_result w = None
        \<longrightarrow> fst (migrate_run flags w) =
              before_selector flags w
                @ (case vps flags of
                     None \<Rightarrow> local_branch w
                   | Some v \<Rightarrow>
                       if v \<noteq> [] then [Log (DeployingToVps v (image_flag flags)),
                                        Log MigrationComplete]
                       else local_branch w))
   \<and> (reaches_deployment flags w \<and> docker_version_result w = None \<and> \<not> truthy (vps flags)
        \<longrightarrow> Log DeployingLocally \<in> set (fst (migrate_run flags w))
          \<and> Exec compose_up_command \<in> set (fst (migrate_run flags w)))
   \<and> (reaches_deployment flags w \<and> docker_version_result w = None \<and> truthy (vps flags)
        \<longrightarrow> (\<exists>v. vps flags = Some v
                \<and> Log (DeployingToVps v (image_flag flags)) \<in> set (fst (migrate_run flags w))))"
proof (cases "reaches_deployment flags w \<and> docker_version_result w = None")
  case True
  then have tr: "fst (migrate_run flags w) =
           before_selector flags w
             @ (case vps flags of
                  None \<Rightarrow> local_branch w
                | Some v \<Rightarrow>
                    if v \<noteq> [] then [Log (DeployingToVps v (image_flag flags)),
                                     Log MigrationComplete]
                    else local_branch w)"
    using migrate_trace_selected by blast
  show ?thesis
    using True
    by (auto simp: tr before_selector_no_branch local_branch_def truthy_def
          split: option.splits)
next
  case False
  from migrate_trace_not_selected [OF False]
  have a: "Exec compose_up_command \<notin> set (fst (migrate_run flags w))"
    and b: "\<And>v i. Log (DeployingToVps v i) \<notin> set (fst (migrate_run flags w))"
    using before_selector_no_branch by blast+
  show ?thesis
    using False a b by blast
qed

text \<open>Evaluated on a forced run with a VPS target and on a forced run without one.\<close>

theorem deployment_branch_exclusive_witness:
  "reaches_deployment vps_flags project_world \<and> docker_version_result project_world = None
   \<and> truthy (vps vps_flags)
   \<and> Log (DeployingToVps ''deploy@203.0.113.7'' ''myapp:latest'')
        \<in> set (fst (migrate_run vps_flags project_world))
   \<and> Exec compose_up_command \<notin> set (fst (migrate_run vps_flags project_world))
   \<and> reaches_deployment plain_flags project_world \<and> \<not> truthy (vps plain_flags)
   \<and> Log DeployingLocally \<in> set (fst (migrate_run plain_flags project_world))
   \<and> Exec compose_up_command \<in> set (fst (migrate_run plain_flags project_world))
   \<and> (\<forall>v i. Log (DeployingToVps v i) \<notin> set (fst (migrate_run plain_flags project_world)))"
proof -
  have r1: "reaches_deployment vps_flags project_world"
    and r2: "reaches_deployment plain_flags project_world"
    by (simp_all add: reaches_deployment_def sample_defs checkDockerFiles_def
          build_and_push_def data_sync_def run_simps execSync_def steps.simps)
  have d: "docker_version_result project_world = None"
    by (simp add: project_world_def)
  have t1: "truthy (vps vps_flags)" and t2: "\<not> truthy (vps plain_flags)"
    by (simp_all add: vps_flags_def plain_flags_def truthy_def)
  have v: "vps vps_flags = Some ''deploy@203.0.113.7''"
          "image_flag vps_flags = ''myapp:latest''"
    by (simp_all add: vps_flags_def)
  from deployment_branch_exclusive [of vps_flags project_world] r1 d t1
  have a: "Log (DeployingToVps ''deploy@203.0.113.7'' ''myapp:latest'')
        \<in> set (fst (migrate_run vps_flags project_world))"
    and b: "Exec compose_up_command \<notin> set (fst (migrate_run vps_flags project_world))"
    unfolding v by (blast, blast)
  from deployment_branch_exclusive [of plain_flags project_world] r2 d t2
  have c: "Log DeployingLocally \<in> set (fst (migrate_run plain_flags project_world))"
    and e: "Exec compose_up_command \<in> set (fst (migrate_run plain_flags project_world))"
    and f: "\<forall>v i. Log (DeployingToVps v i) \<notin> set (fst (migrate_run plain_flags project_world))"
    by (blast, blast, blast)
  from r1 r2 d t1 t2 a b c e f show ?thesis by blast
qed

text \<open>
  The claim as stated fails when the daemon is unreachable: a run with an empty \<^verbatim>\<open>vps\<close>
  reaches the deployment step, logs the daemon check and ends there with the error of
  \<^verbatim>\<open>docker.version()\<close>, without executing \<^verbatim>\<open>docker-compose up -d\<close>.
\<close>

theorem deployment_branch_counterexample:
  "reaches_deployment empty_vps_flags daemon_down_world
   \<and> \<not> truthy (vps empty_vps_flags)
   \<and> Log CheckingDaemon \<in> set (fst (migrate_run empty_vps_flags daemon_down_world))
   \<and> last (fst (migrate_run empty_vps_flags daemon_down_world)) = DockerVersion
   \<and> Exec compose_up_command \<notin> set (fst (migrate_run empty_vps_flags daemon_down_world))
   \<and> snd (migrate_run empty_vps_flags daemon_down_world)
       = Inl (DockerApiError ''connect ENOENT /var/run/docker.sock'')"
  by (simp add: reaches_deployment_def sample_defs migrate_defs io_defs truthy_def)

subsection \<open>Declined build\<close>

lemma declined_build_run:
  assumes "checkDockerFiles w" and "\<not> force flags" and "\<not> answer_build w"
  shows "migrate_run flags w =
           then_io (log_io (MigrateStarting (image_flag flags)))
             (then_io (prompt BuildConfirm False)
                (steps [data_sync flags w, deployment flags w, log_io MigrationComplete]))"
  using assms by (simp add: migrate_run_def build_and_push_def io_defs)

lemma data_sync_ignores_image: "data_sync (flags\<lparr>image_flag := img\<rparr>) w = data_sync flags w"
  by (simp add: data_sync_def cong: if_cong)

lemma local_deployment_ignores_image:
  "\<not> truthy (vps flags) \<Longrightarrow> deployment (flags\<lparr>image_flag := img\<rparr>) w = deployment flags w"
  by (auto simp: deployment_def truthy_def split: option.splits)

lemma declined_local_run_ignores_image:
  assumes "checkDockerFiles w" and "\<not> force flags" and "\<not> answer_build w"
      and "\<not> truthy (vps flags)"
  shows "tl (fst (migrate_run (flags\<lparr>image_flag := img\<rparr>) w)) = tl (fst (migrate_run flags w))
       \<and> snd (migrate_run (flags\<lparr>image_flag := img\<rparr>) w) = snd (migrate_run flags w)"
proof -
  have f: "\<not> force (flags\<lparr>image_flag := img\<rparr>)"
    using assms(2) by simp
  have t: "\<not> truthy (vps (flags\<lparr>image_flag := img\<rparr>))"
    using assms(4) by simp
  show ?thesis
    unfolding declined_build_run [OF assms(1) f assms(3)]
      declined_build_run [OF assms(1,2,3)]
    by (simp add: data_sync_ignores_image local_deployment_ignores_image [OF assms(4)]
          fst_then_io snd_then_io prim_simps)
qed

text \<open>
  Claim C10, as the code has it.  When the artifacts exist, \<^verbatim>\<open>force\<close> is false and the
  operator answers no, the run is the opening line, the prompt, and then steps 2 and 3 in
  sequence followed by the closing line; the build command is never executed; the data-sync
  step is entered; and the deployment step is entered whenever the data-sync step completes.
  The image that was never built is named in the manual instructions, when \<^verbatim>\<open>vps\<close> is a
  non-empty string and the daemon check succeeds.  When \<^verbatim>\<open>vps\<close> is absent or empty the image
  is not used after the opening line: with any other image the run has the same events after
  its first and the same result.  The claim fails without the proviso on the data-sync step,
  since a failing dump ends the run before step 3, and it fails where it says that the
  deployment uses the image reference, since the local path does not.
\<close>

theorem declined_build_continues:
  assumes "checkDockerFiles w" and "\<not> force flags" and "\<not> answer_build w"
  shows "migrate_run flags w =
           then_io (log_io (MigrateStarting (image_flag flags)))
             (then_io (prompt BuildConfirm False)
                (steps [data_sync flags w, deployment flags w, log_io MigrationComplete]))
       \<and> Exec (buildx_command (image_flag flags)) \<notin> set (fst (migrate_run flags w))
       \<and> Log BuildingImage \<notin> set (fst (migrate_run flags w))
       \<and> filter data_sync_event (fst (migrate_run flags w)) \<noteq> []
       \<and> (snd (data_sync flags w) = Inr ()
            \<longrightarrow> Log CheckingDaemon \<in> set (fst (migrate_run flags w))
              \<and> DockerVersion \<in> set (fst (migrate_run flags w)))
       \<and> (\<forall>v. snd (data_sync flags w) = Inr () \<and> docker_version_result w = None
               \<and> vps flags = Some v \<and> v \<noteq> []
            \<longrightarrow> Log (DeployingToVps v (image_flag flags)) \<in> set (fst (migrate_run flags w)))
       \<and> (\<forall>img. \<not> truthy (vps flags)
            \<longrightarrow> tl (fst (migrate_run (flags\<lparr>image_flag := img\<rparr>) w))
                  = tl (fst (migrate_run flags w))
              \<and> snd (migrate_run (flags\<lparr>image_flag := img\<rparr>) w)
                  = snd (migrate_run flags w))"
proof -
  note run = declined_build_run [OF assms]
  note img = declined_local_run_ignores_image [OF assms]
  have tr: "fst (migrate_run flags w) =
      [Log (MigrateStarting (image_flag flags)), Ask BuildConfirm] @ fst (data_sync flags w)
        @ (if snd (data_sync flags w) = Inr ()
           then fst (then_io (deployment flags w) (log_io MigrationComplete)) else [])"
    unfolding run by (cases "snd (data_sync flags w)") (simp_all add: io_defs)
  have ds: "Exec (buildx_command (image_flag flags)) \<notin> set (fst (data_sync flags w))"
           "Log BuildingImage \<notin> set (fst (data_sync flags w))"
           "filter data_sync_event (fst (data_sync flags w)) \<noteq> []"
    by (auto simp: data_sync_def io_defs command_distinct split: option.splits)
  have dp: "Exec (buildx_command (image_flag flags))
              \<notin> set (fst (then_io (deployment flags w) (log_io MigrationComplete)))"
           "Log BuildingImage
              \<notin> set (fst (then_io (deployment flags w) (log_io MigrationComplete)))"
           "Log CheckingDaemon
              \<in> set (fst (then_io (deployment flags w) (log_io MigrationComplete)))"
           "DockerVersion
              \<in> set (fst (then_io (deployment flags w) (log_io MigrationComplete)))"
    by (auto simp: deployment_def deploy_local_def io_defs command_distinct
          split: option.splits)
  have vp: "\<And>v. docker_version_result w = None \<Longrightarrow> vps flags = Some v \<Longrightarrow> v \<noteq> []
      \<Longrightarrow> Log (DeployingToVps v (image_flag flags))
            \<in> set (fst (then_io (deployment flags w) (log_io MigrationComplete)))"
    by (simp add: deployment_def io_defs)
  show ?thesis
    apply (rule conjI)
     apply (rule run)
    using ds dp vp img apply (auto simp: tr)
    done
qed

text \<open>
  Evaluated on a run without data sync and with a VPS target, and on a run without data
  sync and without a VPS target.
\<close>

theorem declined_build_continues_witness:
  "checkDockerFiles declining_world \<and> \<not> force prompted_vps_flags
   \<and> \<not> answer_build declining_world
   \<and> fst (migrate_run prompted_vps_flags declining_world)
       = [Log (MigrateStarting ''myapp:latest''), Ask BuildConfirm, Log SkippingDataSync,
          Log CheckingDaemon, DockerVersion,
          Log (DeployingToVps ''deploy@203.0.113.7'' ''myapp:latest''),
          Log MigrationComplete]
   \<and> \<not> force local_prompted_flags \<and> \<not> truthy (vps local_prompted_flags)
   \<and> tl (fst (migrate_run (local_prompted_flags\<lparr>image_flag := ''other:1''\<rparr>) declining_world))
       = tl (fst (migrate_run local_prompted_flags declining_world))"
proof -
  have h1: "checkDockerFiles declining_world"
    by (simp add: sample_defs checkDockerFiles_def)
  have h2: "\<not> force prompted_vps_flags"
    by (simp add: prompted_vps_flags_def)
  have h3: "\<not> answer_build declining_world"
    by (simp add: sample_defs)
  from declined_build_continues [OF h1 h2 h3]
  have "migrate_run prompted_vps_flags declining_world =
           then_io (log_io (MigrateStarting (image_flag prompted_vps_flags)))
             (then_io (prompt BuildConfirm False)
                (steps [data_sync prompted_vps_flags declining_world,
                        deployment prompted_vps_flags declining_world,
                        log_io MigrationComplete]))"
    by blast
  then have "fst (migrate_run prompted_vps_flags declining_world)
       = [Log (MigrateStarting ''myapp:latest''), Ask BuildConfirm, Log SkippingDataSync,
          Log CheckingDaemon, DockerVersion,
          Log (DeployingToVps ''deploy@203.0.113.7'' ''myapp:latest''),
          Log MigrationComplete]"
    by (simp add: sample_defs data_sync_def deployment_def io_defs)
  moreover have h4: "\<not> force local_prompted_flags"
    and h5: "\<not> truthy (vps local_prompted_flags)"
    by (simp_all add: local_prompted_flags_def truthy_def)
  moreover from declined_build_continues [OF h1 h4 h3] h5
  have "tl (fst (migrate_run (local_prompted_flags\<lparr>image_flag := ''other:1''\<rparr>) declining_world))
       = tl (fst (migrate_run local_prompted_flags declining_world))"
    by blast
  ultimately show ?thesis using h1 h2 h3 by blast
qed

text \<open>
  The claim as stated fails when the operator declines the build, \<^verbatim>\<open>dbType\<close> is mysql and
  \<^verbatim>\<open>mysqldump\<close> is missing: the run ends in step 2 and no event of the deployment step occurs.
  It also fails on a declined build without data sync and without a VPS target: the run
  deploys locally, and after the opening line nothing it does refers to the image.
\<close>

theorem declined_build_counterexample:
  "\<not> force empty_vps_flags \<and> \<not> answer_build mysql_fails_world
   \<and> snd (migrate_run empty_vps_flags mysql_fails_world)
       = Inl (CommandFailed (mysqldump_command ''yourdb'') ''mysqldump: not found'')
   \<and> filter deployment_event (fst (migrate_run empty_vps_flags mysql_fails_world)) = []
   \<and> \<not> force local_prompted_flags \<and> \<not> answer_build declining_world
   \<and> fst (migrate_run local_prompted_flags declining_world)
       = [Log (MigrateStarting ''myapp:latest''), Ask BuildConfirm, Log SkippingDataSync,
          Log CheckingDaemon, DockerVersion, Log DeployingLocally,
          Exec ''docker-compose up -d'', Log StagingRunning, Log MigrationComplete]"
  by (simp add: sample_defs migrate_defs io_defs)

section \<open>Properties of troubleshoot\<close>

lemma inspect_event_of_container:
  "Inspect cid \<in> set (fst (troubleshoot_container w c)) \<Longrightarrow> c = cid"
  by (auto simp: troubleshoot_container_def run_simps container_inspect_def
        container_logs_def split: sum.splits if_splits)

lemma troubleshoot_run_inspects:
  assumes "Inspect cid \<in> set (fst (troubleshoot_run flags w))"
  shows "set (fst (troubleshoot_container w cid)) \<subseteq> set (fst (troubleshoot_run flags w))"
  using assms
  by (auto simp: troubleshoot_run_def run_simps listContainers_def
        dest: inspect_event_of_container split: sum.splits option.splits if_splits)

lemma troubleshoot_container_not_running:
  assumes "inspect_result w cid = Inr insp" and "State_Status insp \<noteq> ''running''"
  shows "Log (NotRunning (State_Status insp) (take 12 cid))
           \<in> set (fst (troubleshoot_container w cid))"
  using assms
  by (simp add: troubleshoot_container_def run_simps container_inspect_def)

lemma troubleshoot_container_no_ports:
  assumes "inspect_result w cid = Inr insp"
      and "NetworkSettings_Ports insp = None \<or> NetworkSettings_Ports insp = Some []"
      and "\<not> answer_checkLogs w \<or> (\<exists>l. logs_result w cid = Inr l)"
  shows "Log NoPortsExposed \<in> set (fst (troubleshoot_container w cid))"
  using assms
  by (auto simp: troubleshoot_container_def run_simps container_inspect_def
        container_logs_def ports_configured_def object_keys_def)

text \<open>
  Claim C7, as the code has it.  For a container that the run inspects, with inspection
  result \<open>insp\<close>: if its status is not \<^verbatim>\<open>running\<close>, the not-running diagnosis (with the
  suggested \<^verbatim>\<open>docker logs\<close> and \<^verbatim>\<open>docker restart\<close> on the short id) is logged; if its port
  mapping is absent or empty, the no-ports diagnosis is logged provided the run gets to the
  common checks, that is, the operator declines the log view or the log read succeeds; an
  exited container without port bindings then receives both.  Without that proviso the
  claim fails, since a rejected log read ends the run between the two checks.
\<close>

theorem diagnoses_emitted:
  assumes "Inspect cid \<in> set (fst (troubleshoot_run flags w))"
      and "inspect_result w cid = Inr insp"
  shows "(State_Status insp \<noteq> ''running''
            \<longrightarrow> Log (NotRunning (State_Status insp) (take 12 cid))
                  \<in> set (fst (troubleshoot_run flags w)))
       \<and> ((NetworkSettings_Ports insp = None \<or> NetworkSettings_Ports insp = Some [])
            \<and> (\<not> answer_checkLogs w \<or> (\<exists>l. logs_result w cid = Inr l))
            \<longrightarrow> Log NoPortsExposed \<in> set (fst (troubleshoot_run flags w)))
       \<and> (State_Status insp = ''exited'' \<and> NetworkSettings_Ports insp = Some []
            \<and> (\<not> answer_checkLogs w \<or> (\<exists>l. logs_result w cid = Inr l))
            \<longrightarrow> Log (NotRunning ''exited'' (take 12 cid)) \<in> set (fst (troubleshoot_run flags w))
              \<and> Log NoPortsExposed \<in> set (fst (troubleshoot_run flags w)))"
proof -
  note tr = troubleshoot_run_inspects [OF assms(1)]
  have a: "State_Status insp \<noteq> ''running''
      \<Longrightarrow> Log (NotRunning (State_Status insp) (take 12 cid)) \<in> set (fst (troubleshoot_run flags w))"
    using troubleshoot_container_not_running [OF assms(2)] tr by blast
  have b: "NetworkSettings_Ports insp = None \<or> NetworkSettings_Ports insp = Some []
      \<Longrightarrow> \<not> answer_checkLogs w \<or> (\<exists>l. logs_result w cid = Inr l)
      \<Longrightarrow> Log NoPortsExposed \<in> set (fst (troubleshoot_run flags w))"
    using troubleshoot_container_no_ports [OF assms(2)] tr by blast
  have c: "State_Status insp = ''exited'' \<Longrightarrow> State_Status insp \<noteq> ''running''"
    by simp
  show ?thesis
    using a b c by metis
qed

text \<open>Evaluated on the exited container of \<open>project_world\<close>, whose logs can be read.\<close>

theorem diagnoses_emitted_witness:
  "Inspect ''web'' \<in> set (fst (troubleshoot_run named_container_flags project_world))
   \<and> inspect_result project_world ''web'' = Inr web_inspect
   \<and> State_Status web_inspect = ''exited''
   \<and> NetworkSettings_Ports web_inspect = Some []
   \<and> logs_result project_world ''web'' = Inr ''listening on 3000''
   \<and> Log (NotRunning ''exited'' ''web'')
        \<in> set (fst (troubleshoot_run named_container_flags project_world))
   \<and> Log NoPortsExposed \<in> set (fst (troubleshoot_run named_container_flags project_world))"
proof -
  have h1: "Inspect ''web'' \<in> set (fst (troubleshoot_run named_container_flags project_world))"
    by (simp add: sample_defs troubleshoot_defs io_defs)
  have h2: "inspect_result project_world ''web'' = Inr web_inspect"
    by (simp add: project_world_def)
  have h3: "State_Status web_inspect = ''exited''"
       "NetworkSettings_Ports web_inspect = Some []"
    by (simp_all add: web_inspect_def)
  have h4: "logs_result project_world ''web'' = Inr ''listening on 3000''"
    by (simp add: project_world_def)
  have t: "take 12 ''web'' = ''web''"
    by simp
  from diagnoses_emitted [OF h1 h2] h3 h4
  have "Log (NotRunning ''exited'' (take 12 ''web''))
          \<in> set (fst (troubleshoot_run named_container_flags project_world))
        \<and> Log NoPortsExposed \<in> set (fst (troubleshoot_run named_container_flags project_world))"
    by blast
  with h1 h2 h3 h4 show ?thesis unfolding t by blast
qed

text \<open>
  The claim as stated fails on an exited container without port bindings whose logs cannot
  be read (Docker rejects the read, as it does for a logging driver that does not support
  it): the not-running diagnosis is logged, the no-ports diagnosis is not, and the run ends
  with the error of the log read.
\<close>

theorem no_ports_diagnosis_counterexample:
  "Inspect ''web'' \<in> set (fst (troubleshoot_run named_container_flags logs_fail_world))
   \<and> inspect_result logs_fail_world ''web'' = Inr web_inspect
   \<and> State_Status web_inspect = ''exited''
   \<and> NetworkSettings_Ports web_inspect = Some []
   \<and> Log (NotRunning ''exited'' ''web'')
        \<in> set (fst (troubleshoot_run named_container_flags logs_fail_world))
   \<and> Log NoPortsExposed \<notin> set (fst (troubleshoot_run named_container_flags logs_fail_world))
   \<and> snd (troubleshoot_run named_container_flags logs_fail_world)
       = Inl (DockerApiError ''configured logging driver does not support reading'')"
  by (simp add: sample_defs troubleshoot_defs io_defs)

section \<open>Properties of generate\<close>

subsection \<open>Stack detection\<close>

text \<open>
  Claim C9.  Whatever files exist, \<^verbatim>\<open>detectStack\<close> never returns \<^verbatim>\<open>react\<close>: its result is
  \<^verbatim>\<open>node-prisma\<close>, \<^verbatim>\<open>python\<close> or undefined, decided by the first two tests alone, because the
  third test asks again for the \<^verbatim>\<open>package.json\<close> that the first test has already returned on.
\<close>

theorem detectStack_never_react:
  "detectStack w outputDir \<noteq> Some ''react''
   \<and> detectStack w outputDir \<in> {Some ''node-prisma'', Some ''python'', None}
   \<and> detectStack w outputDir =
       (if existsSync w (path_join w outputDir ''package.json'') then Some ''node-prisma''
        else if existsSync w (path_join w outputDir ''requirements.txt'') then Some ''python''
        else None)"
  by (simp add: detectStack_def)

text \<open>Evaluated on an empty directory and on a directory without marker files.\<close>

theorem detectStack_never_react_witness:
  "detectStack fresh_dir_world ''.'' = None
   \<and> detectStack project_world ''.'' \<noteq> Some ''react''"
  using detectStack_never_react [of fresh_dir_world "''.''"]
    detectStack_never_react [of project_world "''.''"]
  by (simp add: sample_defs)

subsection \<open>Templates\<close>

text \<open>
  Claim C5.  The content of the Dockerfile and of docker-compose.yml is a function of the
  stack, the port and the entrypoint: two calls of \<^verbatim>\<open>generateDockerfileContent\<close>, and two
  calls of \<^verbatim>\<open>generateComposeContent\<close>, that agree on these three give the same string.
\<close>

theorem template_generator_deterministic:
  assumes "stack_a = stack_b" and "port a = port b" and "entrypoint a = entrypoint b"
  shows "generateDockerfileContent dedent_fn stack_a a = generateDockerfileContent dedent_fn stack_b b
       \<and> generateComposeContent dedent_fn stack_a a = generateComposeContent dedent_fn stack_b b"
  using assms by (simp add: generateDockerfileContent_def generateComposeContent_def)

text \<open>Evaluated on the python stack, port 3000 and entrypoint app.py.\<close>

theorem template_generator_deterministic_witness:
  "generateDockerfileContent interpolate (Some ''python'') \<lparr>port = ''3000'', entrypoint = ''app.py''\<rparr>
     = generateDockerfileContent interpolate (Some ''python'')
         \<lparr>port = ''3000'', entrypoint = ''app.py''\<rparr>
   \<and> generateComposeContent interpolate (Some ''python'') \<lparr>port = ''3000'', entrypoint = ''app.py''\<rparr>
     = generateComposeContent interpolate (Some ''python'')
         \<lparr>port = ''3000'', entrypoint = ''app.py''\<rparr>"
  using template_generator_deterministic
          [of "Some ''python''" "Some ''python''" "\<lparr>port = ''3000'', entrypoint = ''app.py''\<rparr>"
              "\<lparr>port = ''3000'', entrypoint = ''app.py''\<rparr>" interpolate]
  by simp

text \<open>
  What a run of generate writes is computed by these two functions from the resolved stack
  and the two answers, and from nothing else in the world.
\<close>

lemma written_contents_append:
  "written_contents (xs @ ys) = written_contents xs @ written_contents ys"
  by (induction xs rule: written_contents.induct) simp_all

lemma written_contents_resolve_stack: "written_contents (fst (resolve_stack flags w)) = []"
  by (simp add: resolve_stack_def run_simps Let_def split: sum.splits)

lemma written_contents_write_artifacts:
  "written_contents (fst (write_artifacts flags w s)) =
     generateDockerfileContent (dedent w) s
         \<lparr>port = answer_port w, entrypoint = answer_entrypoint w\<rparr>
       # (if writeFile_result w (path_join w (output_dir flags) ''Dockerfile'')
               (generateDockerfileContent (dedent w) s
                  \<lparr>port = answer_port w, entrypoint = answer_entrypoint w\<rparr>) = None
          then [generateComposeContent (dedent w) s
                  \<lparr>port = answer_port w, entrypoint = answer_entrypoint w\<rparr>]
          else [])"
  by (simp add: write_artifacts_def run_simps writeFile_def Let_def split: option.splits)

lemma generate_run_written_contents:
  assumes "snd (resolve_stack flags w) = Inr s"
  shows "written_contents (fst (generate_run flags w)) =
           (if guard_authorizes flags w then written_contents (fst (write_artifacts flags w s))
            else [])"
  using assms
  by (auto simp: generate_run_def guard_authorizes_def run_simps written_contents_append
        written_contents_resolve_stack Let_def)

subsection \<open>Overwrite guard\<close>

lemma written_paths_append: "written_paths (xs @ ys) = written_paths xs @ written_paths ys"
  by (induction xs rule: written_paths.induct) simp_all

lemma written_paths_resolve_stack: "written_paths (fst (resolve_stack flags w)) = []"
  by (simp add: resolve_stack_def run_simps Let_def split: sum.splits)

lemma snd_resolve_stack: "\<exists>s. snd (resolve_stack flags w) = Inr s"
  by (simp add: resolve_stack_def run_simps Let_def)

lemma written_paths_write_artifacts:
  "written_paths (fst (write_artifacts flags w s)) =
     path_join w (output_dir flags) ''Dockerfile''
       # (if writeFile_result w (path_join w (output_dir flags) ''Dockerfile'')
               (generateDockerfileContent (dedent w) s
                  \<lparr>port = answer_port w, entrypoint = answer_entrypoint w\<rparr>) = None
          then [path_join w (output_dir flags) ''docker-compose.yml''] else [])"
  by (simp add: write_artifacts_def run_simps writeFile_def Let_def split: option.splits)

lemma written_paths_generate_run:
  assumes "snd (resolve_stack flags w) = Inr s"
  shows "written_paths (fst (generate_run flags w)) =
           (if guard_authorizes flags w then written_paths (fst (write_artifacts flags w s))
            else [])"
  using assms
  by (auto simp: generate_run_def guard_authorizes_def run_simps written_paths_append
        written_paths_resolve_stack Let_def)

lemma generate_run_skipped:
  assumes "\<not> guard_authorizes flags w"
  shows "last (fst (generate_run flags w)) = Log GenerationSkipped
       \<and> snd (generate_run flags w) = Inr ()"
proof -
  obtain s where s: "snd (resolve_stack flags w) = Inr s"
    using snd_resolve_stack by blast
  show ?thesis
    using assms by (auto simp: generate_run_def guard_authorizes_def run_simps s Let_def)
qed

text \<open>
  Claim C1, as the code has it, for \<^verbatim>\<open>Generate.run\<close> with the \<^verbatim>\<open>force\<close> flag.  The run hands
  something to \<^verbatim>\<open>fs.writeFile\<close> iff the guard authorizes generation, and then the Dockerfile
  comes first; it writes the Dockerfile and then docker-compose.yml, and nothing else, when
  moreover the write of the Dockerfile succeeds; and when the guard does not authorize, it
  writes nothing, its last line is the skipped notice, and it returns normally.  Without the
  proviso on the first write the claim fails, since a rejected write of the Dockerfile ends
  the run before docker-compose.yml is written.
\<close>

theorem generate_guard:
  "(written_paths (fst (generate_run flags w)) \<noteq> [] \<longleftrightarrow> guard_authorizes flags w)
   \<and> (guard_authorizes flags w
        \<longrightarrow> take 1 (written_paths (fst (generate_run flags w)))
              = [path_join w (output_dir flags) ''Dockerfile''])
   \<and> (guard_authorizes flags w
        \<and> (\<forall>c. writeFile_result w (path_join w (output_dir flags) ''Dockerfile'') c = None)
        \<longrightarrow> written_paths (fst (generate_run flags w))
              = [path_join w (output_dir flags) ''Dockerfile'',
                 path_join w (output_dir flags) ''docker-compose.yml''])
   \<and> (\<not> guard_authorizes flags w
        \<longrightarrow> written_paths (fst (generate_run flags w)) = []
          \<and> last (fst (generate_run flags w)) = Log GenerationSkipped
          \<and> snd (generate_run flags w) = Inr ())"
proof -
  obtain s where s: "snd (resolve_stack flags w) = Inr s"
    using snd_resolve_stack by blast
  note wp = written_paths_generate_run [OF s] written_paths_write_artifacts
  have a: "written_paths (fst (generate_run flags w)) \<noteq> [] \<longleftrightarrow> guard_authorizes flags w"
    by (simp add: wp)
  have b: "guard_authorizes flags w
      \<Longrightarrow> take 1 (written_paths (fst (generate_run flags w)))
            = [path_join w (output_dir flags) ''Dockerfile'']"
    by (simp add: wp)
  have c: "guard_authorizes flags w
      \<Longrightarrow> \<forall>c. writeFile_result w (path_join w (output_dir flags) ''Dockerfile'') c = None
      \<Longrightarrow> written_paths (fst (generate_run flags w))
            = [path_join w (output_dir flags) ''Dockerfile'',
               path_join w (output_dir flags) ''docker-compose.yml'']"
    by (simp add: wp)
  have d: "\<not> guard_authorizes flags w \<Longrightarrow> written_paths (fst (generate_run flags w)) = []"
    by (simp add: wp)
  show ?thesis
    using a b c d generate_run_skipped [of flags w] by blast
qed

text \<open>
  Evaluated where both artifacts exist and the operator declines, and on an empty
  directory.
\<close>

theorem generate_guard_witness:
  "\<not> guard_authorizes python_flags project_world
   \<and> written_paths (fst (generate_run python_flags project_world)) = []
   \<and> last (fst (generate_run python_flags project_world)) = Log GenerationSkipped
   \<and> guard_authorizes python_flags fresh_dir_world
   \<and> written_paths (fst (generate_run python_flags fresh_dir_world))
       = [''Dockerfile'', ''docker-compose.yml'']"
proof -
  have h1: "\<not> guard_authorizes python_flags project_world"
    by (simp add: guard_authorizes_def sample_defs)
  have h2: "guard_authorizes python_flags fresh_dir_world"
    by (simp add: guard_authorizes_def sample_defs)
  have h3: "\<forall>c. writeFile_result fresh_dir_world
                  (path_join fresh_dir_world (output_dir python_flags) ''Dockerfile'') c = None"
    by (simp add: sample_defs)
  have p: "path_join fresh_dir_world (output_dir python_flags) ''Dockerfile'' = ''Dockerfile''"
          "path_join fresh_dir_world (output_dir python_flags) ''docker-compose.yml''
             = ''docker-compose.yml''"
    by (simp_all add: sample_defs)
  from generate_guard [of python_flags project_world] h1
  have s: "written_paths (fst (generate_run python_flags project_world)) = []
         \<and> last (fst (generate_run python_flags project_world)) = Log GenerationSkipped"
    by blast
  from generate_guard [of python_flags fresh_dir_world] h2 h3
  have "written_paths (fst (generate_run python_flags fresh_dir_world))
       = [path_join fresh_dir_world (output_dir python_flags) ''Dockerfile'',
          path_join fresh_dir_world (output_dir python_flags) ''docker-compose.yml'']"
    by blast
  with h1 h2 s show ?thesis unfolding p by blast
qed

text \<open>
  The claim as stated fails in two places.  In an empty directory where the write of the
  Dockerfile is rejected, generation is authorized and yet docker-compose.yml is never
  written.  And the \<^verbatim>\<open>Generate.run\<close> of \<^verbatim>\<open>src/commands/generate.ts\<close>, which has neither the
  \<^verbatim>\<open>force\<close> flag nor the confirmation, writes both artifacts although the Dockerfile exists.
\<close>

theorem generate_guard_counterexample:
  "\<not> existsSync write_fails_world (path_join write_fails_world ''.'' ''Dockerfile'')
   \<and> \<not> existsSync write_fails_world (path_join write_fails_world ''.'' ''docker-compose.yml'')
   \<and> written_paths (fst (generate_run python_flags write_fails_world)) = [''Dockerfile'']
   \<and> snd (generate_run python_flags write_fails_world)
       = Inl (FsError ''EACCES: permission denied'')
   \<and> existsSync project_world (path_join project_world ''.'' ''Dockerfile'')
   \<and> written_paths (fst (generate_ts_run ts_flags project_world))
       = [''Dockerfile'', ''docker-compose.yml'']"
  by (simp add: sample_defs generate_defs generate_ts_run_def run_simps writeFile_def Let_def)

text \<open>
  The variant in \<^verbatim>\<open>src/commands/generate.ts\<close> consults nothing before it writes: whatever the
  flags and the world, its first write goes to the Dockerfile.
\<close>

lemma generate_ts_run_unguarded:
  "take 1 (written_paths (fst (generate_ts_run flags w)))
     = [path_join w (output_ts flags) ''Dockerfile'']"
  by (simp add: generate_ts_run_def run_simps writeFile_def Let_def split: option.splits)

end
